theory Spec2Isabelle
  imports Complex_Main "HOL-Library.Char_ord" "HOL-Library.List_Lexorder"
    "HOL-Library.AList" "HOL-Library.Multiset"
begin

section \<open>Python values and library calls used by the trainer\<close>

text \<open>
  The development embeds \<^verbatim>\<open>imageai/Classification/Custom/__init__.py\<close>, the class
  \<^verbatim>\<open>ClassificationModelTrainer\<close>. Python strings are \<open>string\<close> (ASCII text; the
  order on them is the lexicographic order on characters, which is how Python compares
  \<^verbatim>\<open>str\<close>). Python floats are modelled by exact reals. Tensor contents are not
  modelled: a tensor is represented by its shape, and the forward pass, the loss and the
  optimizer are collaborators whose results enter as inputs.
\<close>

datatype error =
    RuntimeError | ValueError | AttributeError | TypeError | IndexError | KeyError
  | FileNotFoundError | NotADirectoryError | UnpicklingError | ZeroDivisionError

text \<open>A procedure either returns, or raises; in both cases the state it leaves is kept.\<close>

datatype 'a outcome = Done 'a | Failed error 'a

fun final :: "'a outcome \<Rightarrow> 'a" where
  "final (Done s) = s"
| "final (Failed e s) = s"

fun raised :: "'a outcome \<Rightarrow> error option" where
  "raised (Done s) = None"
| "raised (Failed e s) = Some e"

subsection \<open>Strings and paths\<close>

definition digit_char :: "nat \<Rightarrow> char" where
  "digit_char d = ''0123456789'' ! d"

text \<open>\<^verbatim>\<open>str(i)\<close> for a non-negative integer.\<close>

fun str_nat :: "nat \<Rightarrow> string" where
  "str_nat n =
     (if n < 10 then [digit_char n] else str_nat (n div 10) @ [digit_char (n mod 10)])"

declare str_nat.simps [simp del]

text \<open>\<^verbatim>\<open>os.path.join(a, b)\<close> on a POSIX system.\<close>

definition path_join :: "string \<Rightarrow> string \<Rightarrow> string" where
  "path_join a b =
     (if b \<noteq> [] \<and> hd b = CHR ''/'' then b
      else if a = [] \<or> last a = CHR ''/'' then a @ b
      else a @ ''/'' @ b)"

text \<open>\<^verbatim>\<open>os.path.basename(p.rstrip(os.path.sep))\<close>.\<close>

definition rstrip_sep :: "string \<Rightarrow> string" where
  "rstrip_sep p = rev (dropWhile (\<lambda>c. c = CHR ''/'') (rev p))"

definition basename :: "string \<Rightarrow> string" where
  "basename p = rev (takeWhile (\<lambda>c. c \<noteq> CHR ''/'') (rev p))"

text \<open>Truthiness of an optional string argument (\<^verbatim>\<open>None\<close> and \<^verbatim>\<open>""\<close> are falsy).\<close>

fun truthy :: "string option \<Rightarrow> bool" where
  "truthy None = False"
| "truthy (Some s) = (s \<noteq> [])"

subsection \<open>The network\<close>

text \<open>
  A tensor is its shape. A named entry of the network outside the classification head is
  a parameter or a buffer; only parameters are reached by \<^verbatim>\<open>model.parameters()\<close>.
\<close>

type_synonym tensor = "nat list"

type_synonym 'v state_dict = "(string \<times> 'v) list"

record entry =
  shape :: tensor
  requires_grad :: bool
  is_param :: bool

datatype layer =
    Linear (in_features: nat) (out_features: nat) (weight_grad: bool) (bias_grad: bool)
  | Dropout

datatype module = Layer layer | Sequential "layer list"

record net =
  body :: "(string \<times> entry) list"
  classifier :: "module option"
  fc :: "module option"

text \<open>\<^verbatim>\<open>nn.Linear(in_features, n)\<close>: a fresh layer, trainable by default.\<close>

definition nn_Linear :: "nat \<Rightarrow> nat \<Rightarrow> layer" where
  "nn_Linear i n = Linear i n True True"

fun layer_state :: "string \<Rightarrow> layer \<Rightarrow> tensor state_dict" where
  "layer_state prefix (Linear i n wg bg) =
     [(prefix @ ''weight'', [n, i]), (prefix @ ''bias'', [n])]"
| "layer_state prefix Dropout = []"

fun module_state :: "string \<Rightarrow> module \<Rightarrow> tensor state_dict" where
  "module_state name (Layer l) = layer_state (name @ ''.'') l"
| "module_state name (Sequential ls) =
     concat (map (\<lambda>(i, l). layer_state (name @ ''.'' @ str_nat i @ ''.'') l)
                 (zip [0..<length ls] ls))"

fun attr_state :: "string \<Rightarrow> module option \<Rightarrow> tensor state_dict" where
  "attr_state name None = []"
| "attr_state name (Some m) = module_state name m"

text \<open>\<^verbatim>\<open>model.state_dict()\<close>: every named tensor with its shape.\<close>

definition state_dict :: "net \<Rightarrow> tensor state_dict" where
  "state_dict m =
     map (\<lambda>(k, e). (k, shape e)) (body m)
       @ attr_state ''classifier'' (classifier m) @ attr_state ''fc'' (fc m)"

text \<open>
  \<^verbatim>\<open>model.load_state_dict(sd)\<close> with the default \<^verbatim>\<open>strict=True\<close>: missing keys,
  unexpected keys and shape mismatches raise \<^verbatim>\<open>RuntimeError\<close>; otherwise the values
  are copied in place, which leaves shapes and trainability flags as they are.
\<close>

definition load_state_dict :: "net \<Rightarrow> tensor state_dict \<Rightarrow> error + net" where
  "load_state_dict m sd =
     (let expected = state_dict m
      in if (\<forall>(k, s) \<in> set expected. map_of sd k = Some s)
            \<and> (\<forall>(k, s) \<in> set sd. k \<in> fst ` set expected)
         then Inr m else Inl RuntimeError)"

text \<open>\<^verbatim>\<open>for param in model.parameters(): param.requires_grad = False\<close>.\<close>

fun freeze_layer :: "layer \<Rightarrow> layer" where
  "freeze_layer (Linear i n wg bg) = Linear i n False False"
| "freeze_layer Dropout = Dropout"

fun freeze_module :: "module \<Rightarrow> module" where
  "freeze_module (Layer l) = Layer (freeze_layer l)"
| "freeze_module (Sequential ls) = Sequential (map freeze_layer ls)"

definition freeze_entry :: "entry \<Rightarrow> entry" where
  "freeze_entry e = (if is_param e then e\<lparr>requires_grad := False\<rparr> else e)"

definition freeze_params :: "net \<Rightarrow> net" where
  "freeze_params m =
     m\<lparr>body := map (\<lambda>(k, e). (k, freeze_entry e)) (body m),
       classifier := map_option freeze_module (classifier m),
       fc := map_option freeze_module (fc m)\<rparr>"

subsection \<open>The file system and the console\<close>

datatype content =
    Json "(string \<times> string) list"
  | Weights "tensor state_dict"
  | Other

datatype fs_op =
    Mkdir string
  | Write_json string "(string \<times> string) list"
  | Remove string
  | Save string "tensor state_dict"

datatype phase = Train | Test

text \<open>
  The world holds the directories, the files with their contents, the file operations
  performed so far in order, and the lines printed for each epoch and phase
  (epoch, phase, loss, accuracy).
\<close>

record world =
  dirs :: "string set"
  files :: "string \<rightharpoonup> content"
  oplog :: "fs_op list"
  console :: "(nat \<times> phase \<times> real \<times> real) list"

definition os_path_isdir :: "world \<Rightarrow> string \<Rightarrow> bool" where
  "os_path_isdir w p = (p \<in> dirs w)"

definition os_path_exists :: "world \<Rightarrow> string \<Rightarrow> bool" where
  "os_path_exists w p = (p \<in> dirs w \<or> files w p \<noteq> None)"

definition os_mkdir :: "string \<Rightarrow> world \<Rightarrow> world" where
  "os_mkdir p w = w\<lparr>dirs := insert p (dirs w), oplog := oplog w @ [Mkdir p]\<rparr>"

definition json_dump :: "string \<Rightarrow> (string \<times> string) list \<Rightarrow> world \<Rightarrow> world" where
  "json_dump p d w = w\<lparr>files := (files w)(p \<mapsto> Json d), oplog := oplog w @ [Write_json p d]\<rparr>"

definition os_remove :: "string \<Rightarrow> world \<Rightarrow> error + world" where
  "os_remove p w =
     (if files w p = None then Inl FileNotFoundError
      else Inr (w\<lparr>files := (files w)(p := None), oplog := oplog w @ [Remove p]\<rparr>))"

definition torch_save :: "tensor state_dict \<Rightarrow> string \<Rightarrow> world \<Rightarrow> world" where
  "torch_save sd p w = w\<lparr>files := (files w)(p \<mapsto> Weights sd), oplog := oplog w @ [Save p sd]\<rparr>"

definition torch_load :: "world \<Rightarrow> string \<Rightarrow> error + tensor state_dict" where
  "torch_load w p =
     (case files w p of
        None \<Rightarrow> Inl FileNotFoundError
      | Some (Weights sd) \<Rightarrow> Inr sd
      | Some _ \<Rightarrow> Inl UnpicklingError)"

text \<open>The effect of one logged operation on the set of files, for replaying a log.\<close>

fun apply_op :: "fs_op \<Rightarrow> (string \<rightharpoonup> content) \<Rightarrow> (string \<rightharpoonup> content)" where
  "apply_op (Mkdir p) f = f"
| "apply_op (Write_json p d) f = f(p \<mapsto> Json d)"
| "apply_op (Remove p) f = f(p := None)"
| "apply_op (Save p sd) f = f(p \<mapsto> Weights sd)"

text \<open>The file-system states passed through while a list of operations runs.\<close>

fun fs_states :: "fs_op list \<Rightarrow> (string \<rightharpoonup> content) \<Rightarrow> (string \<rightharpoonup> content) list" where
  "fs_states [] f = []"
| "fs_states (op # ops) f = apply_op op f # fs_states ops (apply_op op f)"

section \<open>The trainer\<close>

subsection \<open>Collaborators\<close>

text \<open>
  \<^verbatim>\<open>training_params.py\<close> is not part of the sources at hand; the dictionaries it
  returns are inputs. The optimizer factory it names is applied with the learning rate,
  momentum 0.9 and the weight decay.
\<close>

record params =
  p_model :: net
  p_lr_decay_rate :: "real option"
  p_lr_step_size :: "nat option"
  p_lr :: real
  p_weight_decay :: real

record optim =
  opt_lr :: real
  opt_momentum :: real
  opt_weight_decay :: real

record step_lr =
  gamma :: real
  step_size :: nat

text \<open>What \<^verbatim>\<open>datasets.ImageFolder\<close> finds in a directory: the class folders and the
  number of images.\<close>

record dataset =
  classes :: "string list"
  samples :: nat

text \<open>One batch as the loop sees it: the loss of the forward pass and, for each image of
  the batch, the predicted and the true label.\<close>

record batch =
  loss :: real
  outputs :: "(nat \<times> nat) list"

text \<open>
  The environment of a run: what the image folders contain, what the forward passes of
  each epoch and phase produce, how a float is printed by \<^verbatim>\<open>:.5f\<close>, and the four
  parameter tables.
\<close>

record env =
  scan_folder :: "string \<Rightarrow> error + dataset"
  forward :: "nat \<Rightarrow> phase \<Rightarrow> batch list"
  fmt5 :: "real \<Rightarrow> string"
  mobilenet_v2_train_params :: params
  resnet50_train_params :: params
  inception_v3_train_params :: params
  densenet121_train_params :: params

text \<open>\<^verbatim>\<open>datasets.ImageFolder(path, ...)\<close> lists the directory first, which raises when
  the path is not a directory.\<close>

definition ImageFolder :: "env \<Rightarrow> world \<Rightarrow> string \<Rightarrow> error + dataset" where
  "ImageFolder env w p =
     (if os_path_isdir w p then scan_folder env p
      else if files w p \<noteq> None then Inl NotADirectoryError
      else Inl FileNotFoundError)"

subsection \<open>State of a trainer object\<close>

record trainer =
  model_type :: string
  data_dir :: string
  data_loaders :: "int option"
  class_names :: "string list option"
  dataset_sizes :: "(nat \<times> nat) option"
  dataset_name :: string
  model :: "net option"
  optimizer :: "optim option"
  lr_scheduler :: "step_lr option"
  transfer_learning_mode :: string
  model_path :: string
  training_params :: "params option"

definition init_trainer :: trainer where
  "init_trainer =
     \<lparr>model_type = [], data_dir = [], data_loaders = None, class_names = None,
      dataset_sizes = None, dataset_name = [], model = None, optimizer = None,
      lr_scheduler = None, transfer_learning_mode = ''fine_tune_all'', model_path = [],
      training_params = None\<rparr>"

type_synonym state = "trainer \<times> world"

text \<open>
  \<^verbatim>\<open>self.__model\<close> and \<^verbatim>\<open>self.__training_params["model"]\<close> are the same object from
  line 44 on, so a mutation of the model is seen through both.
\<close>

definition mutate_model :: "(net \<Rightarrow> net) \<Rightarrow> trainer \<Rightarrow> trainer" where
  "mutate_model f t =
     t\<lparr>model := map_option f (model t),
       training_params := map_option (\<lambda>p. p\<lparr>p_model := f (p_model p)\<rparr>) (training_params t)\<rparr>"

subsection \<open>Setters\<close>

definition setDataDirectory :: "string \<Rightarrow> state \<Rightarrow> state outcome" where
  "setDataDirectory d = (\<lambda>(t, w).
     if os_path_isdir w d then Done (t\<lparr>data_dir := d\<rparr>, w)
     else Failed ValueError (t, w))"

definition setModelAsMobileNetV2 :: "env \<Rightarrow> trainer \<Rightarrow> trainer" where
  "setModelAsMobileNetV2 env t =
     t\<lparr>model_type := ''mobilenet_v2'', training_params := Some (mobilenet_v2_train_params env)\<rparr>"

definition setModelAsResNet50 :: "env \<Rightarrow> trainer \<Rightarrow> trainer" where
  "setModelAsResNet50 env t =
     t\<lparr>model_type := ''resnet50'', training_params := Some (resnet50_train_params env)\<rparr>"

definition setModelAsInceptionV3 :: "env \<Rightarrow> trainer \<Rightarrow> trainer" where
  "setModelAsInceptionV3 env t =
     t\<lparr>model_type := ''inception_v3'', training_params := Some (inception_v3_train_params env)\<rparr>"

definition setModelAsDenseNet121 :: "env \<Rightarrow> trainer \<Rightarrow> trainer" where
  "setModelAsDenseNet121 env t =
     t\<lparr>model_type := ''densenet121'', training_params := Some (densenet121_train_params env)\<rparr>"

definition freezeAllLayers :: "trainer \<Rightarrow> trainer" where
  "freezeAllLayers t = t\<lparr>transfer_learning_mode := ''freeze_all''\<rparr>"

definition fineTuneAllLayers :: "trainer \<Rightarrow> trainer" where
  "fineTuneAllLayers t = t\<lparr>transfer_learning_mode := ''fine_tune_all''\<rparr>"

subsection \<open>Legacy key remapping\<close>

text \<open>
  The pattern of lines 88 to 91 is
  \<^verbatim>\<open>^(.*denselayer\d+\.(?:norm|relu|conv))\.((?:[12])\.(?:weight|bias|running_mean|running_var))$\<close>.
  A key matches when, after dropping one final newline if there is one (\<^verbatim>\<open>$\<close> also
  matches just before it), it reads: any text without a newline, \<^verbatim>\<open>denselayer\<close>, one
  or more digits, a dot, one of the three stage names, a dot, \<^verbatim>\<open>1\<close> or \<^verbatim>\<open>2\<close>, a dot,
  one of the four suffixes. Read from the right this is deterministic: the alternatives
  end in different letters and the digits are the whole run in front of the dot, since
  \<^verbatim>\<open>denselayer\<close> ends in a letter. The matcher therefore walks the reversed key and
  returns the two groups.
\<close>

fun strip_prefix :: "string \<Rightarrow> string \<Rightarrow> string option" where
  "strip_prefix [] s = Some s"
| "strip_prefix (c # cs) [] = None"
| "strip_prefix (c # cs) (d # ds) = (if c = d then strip_prefix cs ds else None)"

fun first_alt :: "string list \<Rightarrow> string \<Rightarrow> (string \<times> string) option" where
  "first_alt [] s = None"
| "first_alt (a # as) s =
     (case strip_prefix a s of Some r \<Rightarrow> Some (a, r) | None \<Rightarrow> first_alt as s)"

definition is_digit :: "char \<Rightarrow> bool" where
  "is_digit c = (c \<in> set ''0123456789'')"

definition newline :: char where
  "newline = CHR 0x0A"

definition drop_final_newline :: "string \<Rightarrow> string" where
  "drop_final_newline r = (case r of [] \<Rightarrow> [] | c # cs \<Rightarrow> if c = newline then cs else r)"

definition match_layer :: "string \<Rightarrow> string option" where
  "match_layer r =
     (let ds = takeWhile is_digit r
      in case strip_prefix (rev ''denselayer'') (dropWhile is_digit r) of
           None \<Rightarrow> None
         | Some pre \<Rightarrow>
             if ds \<noteq> [] \<and> newline \<notin> set pre
             then Some (rev pre @ ''denselayer'' @ rev ds) else None)"

definition pattern_match :: "string \<Rightarrow> (string \<times> string) option" where
  "pattern_match key =
     (case first_alt (map rev [''weight'', ''bias'', ''running_mean'', ''running_var''])
             (drop_final_newline (rev key)) of
        None \<Rightarrow> None
      | Some (suffix, r2) \<Rightarrow>
          (case r2 of
             dot1 # d # dot2 # r3 \<Rightarrow>
               if dot1 = CHR ''.'' \<and> (d = CHR ''1'' \<or> d = CHR ''2'') \<and> dot2 = CHR ''.''
               then (case first_alt (map rev [''norm'', ''relu'', ''conv'']) r3 of
                       None \<Rightarrow> None
                     | Some (stage, r4) \<Rightarrow>
                         (case r4 of
                            [] \<Rightarrow> None
                          | dot3 # r5 \<Rightarrow>
                              if dot3 = CHR ''.''
                              then (case match_layer r5 of
                                      None \<Rightarrow> None
                                    | Some layer \<Rightarrow>
                                        Some (layer @ ''.'' @ rev stage,
                                              d # ''.'' @ rev suffix))
                              else None))
               else None
           | _ \<Rightarrow> None))"

text \<open>
  The loop of lines 92 to 97 over a snapshot of the keys. Assigning to a key of a Python
  dictionary replaces the value in place when the key is there and appends it otherwise.
\<close>

definition remap_key :: "'v state_dict \<Rightarrow> string \<Rightarrow> error + 'v state_dict" where
  "remap_key sd key =
     (case pattern_match key of
        None \<Rightarrow> Inr sd
      | Some (g1, g2) \<Rightarrow>
          (case map_of sd key of
             None \<Rightarrow> Inl KeyError
           | Some v \<Rightarrow> Inr (AList.delete key (AList.update (g1 @ g2) v sd))))"

fun remap_keys :: "string list \<Rightarrow> 'v state_dict \<Rightarrow> error + 'v state_dict" where
  "remap_keys [] sd = Inr sd"
| "remap_keys (key # keys) sd =
     (case remap_key sd key of Inl e \<Rightarrow> Inl e | Inr sd' \<Rightarrow> remap_keys keys sd')"

definition remap_legacy_keys :: "'v state_dict \<Rightarrow> error + 'v state_dict" where
  "remap_legacy_keys sd = remap_keys (map fst sd) sd"

subsection \<open>Loading the dataset\<close>

text \<open>
  \<^verbatim>\<open>__load_data\<close>: both image folders and both loaders are built before any field of
  the trainer is assigned. A \<^verbatim>\<open>DataLoader\<close> refuses a batch size that is not positive.
  The image transforms do not enter any result and are left out.
\<close>

definition load_data :: "env \<Rightarrow> int \<Rightarrow> state \<Rightarrow> state outcome" where
  "load_data env batch_size = (\<lambda>(t, w).
     if data_dir t = [] then Failed RuntimeError (t, w)
     else
       (case ImageFolder env w (path_join (data_dir t) ''train'') of
          Inl e \<Rightarrow> Failed e (t, w)
        | Inr train \<Rightarrow>
            (case ImageFolder env w (path_join (data_dir t) ''test'') of
               Inl e \<Rightarrow> Failed e (t, w)
             | Inr test \<Rightarrow>
                 if batch_size \<le> 0 then Failed ValueError (t, w)
                 else Done (t\<lparr>data_loaders := Some batch_size,
                              dataset_sizes := Some (samples train, samples test),
                              class_names := Some (classes train),
                              dataset_name := basename (rstrip_sep (data_dir t))\<rparr>, w))))"

subsection \<open>Transfer learning and the classification head\<close>

text \<open>\<^verbatim>\<open>__set_transfer_learning_mode\<close>, lines 82 to 103.\<close>

definition set_transfer_learning_mode :: "state \<Rightarrow> state outcome" where
  "set_transfer_learning_mode = (\<lambda>(t, w).
     case torch_load w (model_path t) of
       Inl e \<Rightarrow> Failed e (t, w)
     | Inr sd \<Rightarrow>
         (case (if model_type t = ''densenet121'' then remap_legacy_keys sd else Inr sd) of
            Inl e \<Rightarrow> Failed e (t, w)
          | Inr sd' \<Rightarrow>
              (case model t of
                 None \<Rightarrow> Failed AttributeError (t, w)
               | Some m \<Rightarrow>
                   (case load_state_dict m sd' of
                      Inl e \<Rightarrow> Failed e (t, w)
                    | Inr m' \<Rightarrow>
                        if transfer_learning_mode t = ''freeze_all''
                        then Done (mutate_model freeze_params t, w)
                        else Done (t, w)))))"

text \<open>
  Lines 58 to 66. Reading \<^verbatim>\<open>in_features\<close> comes first and raises when the attribute
  is not there or is not of the expected kind; \<^verbatim>\<open>len(self.__class_names)\<close> raises when
  no dataset was loaded.
\<close>

fun layer_in_features :: "layer \<Rightarrow> error + nat" where
  "layer_in_features (Linear i n wg bg) = Inr i"
| "layer_in_features Dropout = Inl AttributeError"

definition new_head :: "error + nat \<Rightarrow> string list option \<Rightarrow> error + layer" where
  "new_head feat cs =
     (case feat of
        Inl e \<Rightarrow> Inl e
      | Inr i \<Rightarrow> (case cs of None \<Rightarrow> Inl TypeError | Some names \<Rightarrow> Inr (nn_Linear i (length names))))"

definition replace_head :: "string \<Rightarrow> string list option \<Rightarrow> net \<Rightarrow> error + net" where
  "replace_head mtype cs m =
     (if mtype = ''mobilenet_v2'' then
        (case classifier m of
           None \<Rightarrow> Inl AttributeError
         | Some (Layer l) \<Rightarrow> Inl TypeError
         | Some (Sequential ls) \<Rightarrow>
             if length ls \<le> 1 then Inl IndexError
             else (case new_head (layer_in_features (ls ! 1)) cs of
                     Inl e \<Rightarrow> Inl e
                   | Inr l \<Rightarrow> Inr (m\<lparr>classifier := Some (Sequential (ls[1 := l]))\<rparr>)))
      else if mtype = ''densenet121'' then
        (case classifier m of
           None \<Rightarrow> Inl AttributeError
         | Some (Sequential ls) \<Rightarrow> Inl AttributeError
         | Some (Layer l0) \<Rightarrow>
             (case new_head (layer_in_features l0) cs of
                Inl e \<Rightarrow> Inl e
              | Inr l \<Rightarrow> Inr (m\<lparr>classifier := Some (Layer l)\<rparr>)))
      else
        (case fc m of
           None \<Rightarrow> Inl AttributeError
         | Some (Sequential ls) \<Rightarrow> Inl AttributeError
         | Some (Layer l0) \<Rightarrow>
             (case new_head (layer_in_features l0) cs of
                Inl e \<Rightarrow> Inl e
              | Inr l \<Rightarrow> Inr (m\<lparr>fc := Some (Layer l)\<rparr>))))"

text \<open>Truthiness of the two optional schedule parameters (\<^verbatim>\<open>None\<close> and zero are falsy).\<close>

definition make_scheduler :: "params \<Rightarrow> step_lr option" where
  "make_scheduler p =
     (case (p_lr_decay_rate p, p_lr_step_size p) of
        (Some g, Some n) \<Rightarrow> if g \<noteq> 0 \<and> n \<noteq> 0 then Some \<lparr>gamma = g, step_size = n\<rparr> else None
      | _ \<Rightarrow> None)"

text \<open>Lines 55 to 80 of \<^verbatim>\<open>__set_training_param\<close>: the new head, the optimizer and the
  schedule, for the parameter table \<open>p\<close>.\<close>

definition finish_training_param :: "params \<Rightarrow> state \<Rightarrow> state outcome" where
  "finish_training_param p = (\<lambda>(t, w).
     case model t of
       None \<Rightarrow> Failed AttributeError (t, w)
     | Some m \<Rightarrow>
         (case replace_head (model_type t) (class_names t) m of
            Inl e \<Rightarrow> Failed e (t, w)
          | Inr m' \<Rightarrow>
              Done ((mutate_model (\<lambda>_. m') t)
                      \<lparr>optimizer := Some \<lparr>opt_lr = p_lr p, opt_momentum = 9 / 10,
                                         opt_weight_decay = p_weight_decay p\<rparr>,
                       lr_scheduler :=
                         (case make_scheduler p of
                            None \<Rightarrow> lr_scheduler t
                          | Some sch \<Rightarrow> Some sch)\<rparr>, w)))"

text \<open>\<^verbatim>\<open>__set_training_param\<close>, lines 36 to 80.\<close>

definition set_training_param :: "state \<Rightarrow> state outcome" where
  "set_training_param = (\<lambda>(t, w).
     if model_type t = [] then Failed RuntimeError (t, w)
     else
       (case training_params t of
          None \<Rightarrow> Failed TypeError (t, w)
        | Some p \<Rightarrow>
            (case (if model_path t \<noteq> []
                   then set_transfer_learning_mode (t\<lparr>model := Some (p_model p)\<rparr>, w)
                   else Done (t\<lparr>model := Some (p_model p)\<rparr>, w)) of
               Failed e s \<Rightarrow> Failed e s
             | Done s2 \<Rightarrow> finish_training_param p s2)))"

subsection \<open>The class-index mapping\<close>

text \<open>Lines 212 to 215: the dictionary written to the mapping file, in insertion order.\<close>

definition classes_dict_of :: "string list \<Rightarrow> (string \<times> string) list" where
  "classes_dict_of names =
     (let class_list = sort names
      in foldl (\<lambda>classes_dict i. AList.update (str_nat i) (class_list ! i) classes_dict)
           [] [0..<length class_list])"

subsection \<open>Epoch metrics\<close>

text \<open>Lines 243 to 264: the two running sums over the batches of one phase.\<close>

fun run_batches :: "batch list \<Rightarrow> real \<times> nat \<Rightarrow> real \<times> nat" where
  "run_batches [] acc = acc"
| "run_batches (b # bs) (running_loss, running_corrects) =
     run_batches bs
       (running_loss + loss b * real (length (outputs b)),
        running_corrects + length (filter (\<lambda>(pred, label). pred = label) (outputs b)))"

text \<open>
  Lines 270 and 271. A float divided by the integer zero raises; with no batch at all
  \<^verbatim>\<open>running_corrects\<close> is still the integer it was initialised with, which has no
  method \<^verbatim>\<open>double\<close>.
\<close>

definition epoch_metrics :: "batch list \<Rightarrow> nat \<Rightarrow> error + real \<times> real" where
  "epoch_metrics batches dataset_size =
     (case run_batches batches (0, 0) of
        (running_loss, running_corrects) \<Rightarrow>
          if dataset_size = 0 then Inl ZeroDivisionError
          else if batches = [] then Inl AttributeError
          else Inr (running_loss / real dataset_size,
                    real running_corrects / real dataset_size))"

subsection \<open>Checkpoints and the training loop\<close>

record loop_state =
  best_acc :: real
  prev_save_name :: string
  recent_save_name :: string
  best_model_weights :: "tensor state_dict"

definition init_loop :: "net \<Rightarrow> loop_state" where
  "init_loop m =
     \<lparr>best_acc = 0, prev_save_name = [], recent_save_name = [],
      best_model_weights = state_dict m\<rparr>"

definition save_name :: "env \<Rightarrow> trainer \<Rightarrow> real \<Rightarrow> nat \<Rightarrow> string" where
  "save_name env t acc epoch =
     model_type t @ ''-'' @ dataset_name t @ ''-test_acc_'' @ fmt5 env acc
       @ ''_epoch-'' @ str_nat epoch @ ''.pt''"

text \<open>Lines 276 to 284, the body of the conditional.\<close>

definition save_checkpoint ::
  "env \<Rightarrow> trainer \<Rightarrow> net \<Rightarrow> string \<Rightarrow> nat \<Rightarrow> real \<Rightarrow> loop_state \<times> world
     \<Rightarrow> (loop_state \<times> world) outcome" where
  "save_checkpoint env t m model_directory epoch epoch_acc = (\<lambda>(ls, w).
     let ls1 = ls\<lparr>best_acc := epoch_acc\<rparr>;
         ls2 = ls1\<lparr>recent_save_name := save_name env t (best_acc ls1) epoch\<rparr>
     in case (if prev_save_name ls2 \<noteq> []
              then os_remove (path_join model_directory (prev_save_name ls2)) w
              else Inr w) of
          Inl e \<Rightarrow> Failed e (ls2, w)
        | Inr w1 \<Rightarrow>
            let ls3 = ls2\<lparr>best_model_weights := state_dict m\<rparr>;
                w2 = torch_save (best_model_weights ls3)
                       (path_join model_directory (recent_save_name ls3)) w1
            in Done (ls3\<lparr>prev_save_name := recent_save_name ls3\<rparr>, w2))"

text \<open>Line 275 for the test phase: the checkpoint is considered.\<close>

definition consider_checkpoint ::
  "env \<Rightarrow> trainer \<Rightarrow> net \<Rightarrow> string \<Rightarrow> nat \<Rightarrow> real \<Rightarrow> loop_state \<times> world
     \<Rightarrow> (loop_state \<times> world) outcome" where
  "consider_checkpoint env t m model_directory epoch epoch_acc = (\<lambda>(ls, w).
     if epoch_acc > best_acc ls
     then save_checkpoint env t m model_directory epoch epoch_acc (ls, w)
     else Done (ls, w))"

fun split_size :: "nat \<times> nat \<Rightarrow> phase \<Rightarrow> nat" where
  "split_size (n_train, n_test) Train = n_train"
| "split_size (n_train, n_test) Test = n_test"

text \<open>One phase of one epoch, lines 237 to 284.\<close>

definition run_phase ::
  "env \<Rightarrow> trainer \<Rightarrow> net \<Rightarrow> nat \<times> nat \<Rightarrow> string \<Rightarrow> bool \<Rightarrow> nat \<Rightarrow> phase
     \<Rightarrow> loop_state \<times> world \<Rightarrow> (loop_state \<times> world) outcome" where
  "run_phase env t m sizes model_directory verbose epoch ph = (\<lambda>(ls, w).
     case epoch_metrics (forward env epoch ph) (split_size sizes ph) of
       Inl e \<Rightarrow> Failed e (ls, w)
     | Inr (epoch_loss, epoch_acc) \<Rightarrow>
         let w1 = (if verbose
                   then w\<lparr>console := console w @ [(epoch, ph, epoch_loss, epoch_acc)]\<rparr>
                   else w)
         in if ph = Test
            then consider_checkpoint env t m model_directory epoch epoch_acc (ls, w1)
            else Done (ls, w1))"

fun run_phases ::
  "env \<Rightarrow> trainer \<Rightarrow> net \<Rightarrow> nat \<times> nat \<Rightarrow> string \<Rightarrow> bool \<Rightarrow> nat \<Rightarrow> phase list
     \<Rightarrow> loop_state \<times> world \<Rightarrow> (loop_state \<times> world) outcome" where
  "run_phases env t m sizes md verbose epoch [] s = Done s"
| "run_phases env t m sizes md verbose epoch (ph # phs) s =
     (case run_phase env t m sizes md verbose epoch ph s of
        Failed e s' \<Rightarrow> Failed e s'
      | Done s' \<Rightarrow> run_phases env t m sizes md verbose epoch phs s')"

fun training_loop ::
  "env \<Rightarrow> trainer \<Rightarrow> net \<Rightarrow> nat \<times> nat \<Rightarrow> string \<Rightarrow> bool \<Rightarrow> nat list
     \<Rightarrow> loop_state \<times> world \<Rightarrow> (loop_state \<times> world) outcome" where
  "training_loop env t m sizes md verbose [] s = Done s"
| "training_loop env t m sizes md verbose (epoch # epochs) s =
     (case run_phases env t m sizes md verbose epoch [Train, Test] s of
        Failed e s' \<Rightarrow> Failed e s'
      | Done s' \<Rightarrow> training_loop env t m sizes md verbose epochs s')"

subsection \<open>\<^verbatim>\<open>trainModel\<close>\<close>

fun set_model_path :: "string option \<Rightarrow> trainer \<Rightarrow> trainer" where
  "set_model_path None t = t"
| "set_model_path (Some p) t = (if p \<noteq> [] then t\<lparr>model_path := p\<rparr> else t)"

fun output_directory :: "string option \<Rightarrow> trainer \<Rightarrow> string" where
  "output_directory None t = path_join (data_dir t) ''models''"
| "output_directory (Some d) t = (if d \<noteq> [] then d else path_join (data_dir t) ''models'')"

definition ensure_directory :: "string \<Rightarrow> world \<Rightarrow> world" where
  "ensure_directory d w = (if \<not> os_path_exists w d then os_mkdir d w else w)"

definition mapping_path :: "string \<Rightarrow> trainer \<Rightarrow> string" where
  "mapping_path d t = path_join d (dataset_name t @ ''_model_classes.json'')"

text \<open>Lines 203 to 284, once the data and the model are there.\<close>

definition train_loaded ::
  "env \<Rightarrow> int \<Rightarrow> string option \<Rightarrow> bool \<Rightarrow> state \<Rightarrow> state outcome" where
  "train_loaded env num_experiments model_directory verbose = (\<lambda>(t, w).
     case class_names t of
       None \<Rightarrow> Failed TypeError (t, w)
     | Some names \<Rightarrow>
         (case model t of
            None \<Rightarrow> Failed AttributeError (t, w)
          | Some m \<Rightarrow>
              (case dataset_sizes t of
                 None \<Rightarrow> Failed TypeError (t, w)
               | Some sizes \<Rightarrow>
                   let d = output_directory model_directory t;
                       w1 = ensure_directory d w;
                       w2 = json_dump (mapping_path d t) (classes_dict_of names) w1
                   in (case training_loop env t m sizes d verbose
                              [0..<nat num_experiments] (init_loop m, w2) of
                         Failed e (ls, w3) \<Rightarrow> Failed e (t, w3)
                       | Done (ls, w3) \<Rightarrow> Done (t, w3)))))"

definition trainModel ::
  "env \<Rightarrow> int \<Rightarrow> int \<Rightarrow> string option \<Rightarrow> string option \<Rightarrow> bool \<Rightarrow> state
     \<Rightarrow> state outcome" where
  "trainModel env num_experiments batch_size model_directory transfer_from_model verbose s =
     (case load_data env batch_size s of
        Failed e s' \<Rightarrow> Failed e s'
      | Done (t1, w1) \<Rightarrow>
          (case set_training_param (set_model_path transfer_from_model t1, w1) of
             Failed e s' \<Rightarrow> Failed e s'
           | Done s3 \<Rightarrow> train_loaded env num_experiments model_directory verbose s3))"

subsection \<open>Reading the log of file operations\<close>



section \<open>An example run\<close>

text \<open>
  A small network with the head shape of a ResNet, a two-class dataset under
  \<^verbatim>\<open>/data/pets\<close> with four training and two test images, and a checkpoint of the
  network at \<^verbatim>\<open>/ckpt.pt\<close>. The theorems below are instantiated on it.
\<close>

definition demo_backbone :: net where
  "demo_backbone =
     \<lparr>body = [(''conv1.weight'', \<lparr>shape = [4, 3], requires_grad = True, is_param = True\<rparr>),
              (''bn1.running_mean'', \<lparr>shape = [4], requires_grad = False, is_param = False\<rparr>)],
      classifier = None,
      fc = Some (Layer (Linear 4 2 True True))\<rparr>"

definition demo_params :: params where
  "demo_params =
     \<lparr>p_model = demo_backbone, p_lr_decay_rate = Some (1 / 10), p_lr_step_size = Some 30,
      p_lr = 1 / 10, p_weight_decay = 1 / 10000\<rparr>"

definition demo_forward :: "nat \<Rightarrow> phase \<Rightarrow> batch list" where
  "demo_forward epoch ph =
     (case ph of
        Train \<Rightarrow> [\<lparr>loss = 1, outputs = [(0, 0), (1, 0)]\<rparr>, \<lparr>loss = 1 / 2, outputs = [(1, 1), (0, 0)]\<rparr>]
      | Test \<Rightarrow> [\<lparr>loss = 1 / 2, outputs = [(0, 0), (0, 1)]\<rparr>])"

definition demo_fmt5 :: "real \<Rightarrow> string" where
  "demo_fmt5 r = (if r = 1 / 2 then ''0.50000'' else if r = 1 then ''1.00000'' else ''0.00000'')"

definition demo_scan :: "string \<Rightarrow> error + dataset" where
  "demo_scan p =
     (if p = ''/data/pets/train'' then Inr \<lparr>classes = [''dog'', ''cat''], samples = 4\<rparr>
      else if p = ''/data/pets/test'' then Inr \<lparr>classes = [''dog'', ''cat''], samples = 2\<rparr>
      else Inl FileNotFoundError)"

definition demo_env :: env where
  "demo_env =
     \<lparr>scan_folder = demo_scan, forward = demo_forward, fmt5 = demo_fmt5,
      mobilenet_v2_train_params = demo_params, resnet50_train_params = demo_params,
      inception_v3_train_params = demo_params, densenet121_train_params = demo_params\<rparr>"

definition demo_world :: world where
  "demo_world =
     \<lparr>dirs = {''/data/pets'', ''/data/pets/train'', ''/data/pets/test''},
      files = [''/ckpt.pt'' \<mapsto> Weights (state_dict demo_backbone)],
      oplog = [], console = []\<rparr>"

definition demo_trainer :: trainer where
  "demo_trainer = (setModelAsResNet50 demo_env init_trainer)\<lparr>data_dir := ''/data/pets''\<rparr>"

definition head_layer :: "string \<Rightarrow> net \<Rightarrow> layer option" where
  "head_layer mtype m =
     (if mtype = ''mobilenet_v2'' then
        (case classifier m of
           Some (Sequential ls) \<Rightarrow> if 1 < length ls then Some (ls ! 1) else None
         | _ \<Rightarrow> None)
      else if mtype = ''densenet121'' then
        (case classifier m of Some (Layer l) \<Rightarrow> Some l | _ \<Rightarrow> None)
      else
        (case fc m of Some (Layer l) \<Rightarrow> Some l | _ \<Rightarrow> None))"

definition demo_loaded :: trainer where
  "demo_loaded =
     demo_trainer\<lparr>data_loaders := Some 2, dataset_sizes := Some (4, 2),
                  class_names := Some [''dog'', ''cat''], dataset_name := ''pets''\<rparr>"

definition demo_ready :: trainer where
  "demo_ready =
     demo_loaded\<lparr>model := Some demo_backbone,
                 optimizer := Some \<lparr>opt_lr = 1 / 10, opt_momentum = 9 / 10,
                                    opt_weight_decay = 1 / 10000\<rparr>,
                 lr_scheduler := Some \<lparr>gamma = 1 / 10, step_size = 30\<rparr>\<rparr>"

definition report_ok :: "env \<Rightarrow> nat \<times> nat \<Rightarrow> nat \<times> phase \<times> real \<times> real \<Rightarrow> bool" where
  "report_ok env sizes r =
     (case r of (epoch, ph, epoch_loss, epoch_acc) \<Rightarrow>
        epoch_metrics (forward env epoch ph) (split_size sizes ph) = Inr (epoch_loss, epoch_acc))"

definition loss_sum :: "batch list \<Rightarrow> real" where
  "loss_sum bs = (\<Sum>b\<leftarrow>bs. loss b * real (length (outputs b)))"

definition correct_count :: "batch list \<Rightarrow> nat" where
  "correct_count bs = (\<Sum>b\<leftarrow>bs. length (filter (\<lambda>(pred, label). pred = label) (outputs b)))"

definition example_count :: "batch list \<Rightarrow> nat" where
  "example_count bs = (\<Sum>b\<leftarrow>bs. length (outputs b))"

definition supported_architectures :: "string list" where
  "supported_architectures = [''mobilenet_v2'', ''densenet121'', ''resnet50'', ''inception_v3'']"

definition demo_mobilenet :: net where
  "demo_mobilenet =
     \<lparr>body = [(''features.0.0.weight'', \<lparr>shape = [32, 3, 3, 3], requires_grad = True, is_param = True\<rparr>)],
      classifier = Some (Sequential [Dropout, Linear 1280 1000 True True]),
      fc = None\<rparr>"

definition param_flags :: "net \<Rightarrow> (string \<times> bool) list" where
  "param_flags m = map (\<lambda>(k, e). (k, requires_grad e)) (filter (\<lambda>(k, e). is_param e) (body m))"

definition demo_first_run :: "state outcome" where
  "demo_first_run = trainModel demo_env 0 2 None (Some ''/ckpt.pt'') False (demo_trainer, demo_world)"


definition demo_legacy_dict :: "nat state_dict" where
  "demo_legacy_dict =
     [(''features.denseblock1.denselayer1.norm.1.weight'', 1),
      (''features.denseblock1.denselayer1.conv.2.weight'', 2),
      (''classifier.bias'', 3)]"

definition demo_unbound :: trainer where
  "demo_unbound = setModelAsResNet50 demo_env init_trainer"

definition demo_birds :: trainer where
  "demo_birds = demo_unbound\<lparr>data_dir := ''/data/birds''\<rparr>"

(*DEFS-END*)

section \<open>Properties\<close>

subsection \<open>Decimal strings and the class-index dictionary\<close>








lemma classes_dict_of_perm:
  "mset xs = mset ys \<Longrightarrow> classes_dict_of xs = classes_dict_of ys"
proof -
  assume eq: "mset xs = mset ys"
  have "sort xs = sort ys"
    by (rule properties_for_sort) (simp_all add: eq)
  then show ?thesis
    by (simp add: classes_dict_of_def)
qed

subsection \<open>The training loop only adds checkpoint operations to the log\<close>








subsection \<open>What the set-up steps change\<close>

lemma load_data_Done:
  assumes "load_data env bs (t, w) = Done (t1, w1)"
  shows "w1 = w \<and> dataset_sizes t1 \<noteq> None \<and> class_names t1 \<noteq> None \<and> model t1 = model t
       \<and> model_type t1 = model_type t \<and> model_path t1 = model_path t
       \<and> training_params t1 = training_params t
       \<and> transfer_learning_mode t1 = transfer_learning_mode t \<and> data_dir t1 = data_dir t"
  using assms by (auto simp: load_data_def split: if_splits sum.splits)

lemma load_data_Failed:
  assumes "load_data env bs s = Failed e s'"
  shows "s' = s"
  using assms by (cases s) (auto simp: load_data_def split: if_splits sum.splits)

lemma set_transfer_learning_mode_Done:
  assumes "set_transfer_learning_mode (t, w) = Done (t', w')"
  shows "w' = w \<and> (t' = t \<or> t' = mutate_model freeze_params t)"
  using assms
  by (auto simp: set_transfer_learning_mode_def split: if_splits sum.splits option.splits)

lemma set_transfer_learning_mode_Failed:
  assumes "set_transfer_learning_mode s = Failed e s'"
  shows "s' = s"
  using assms
  by (cases s) (auto simp: set_transfer_learning_mode_def split: if_splits sum.splits option.splits)

lemma mutate_model_fields [simp]:
  "class_names (mutate_model f t) = class_names t"
  "dataset_sizes (mutate_model f t) = dataset_sizes t"
  "dataset_name (mutate_model f t) = dataset_name t"
  "data_dir (mutate_model f t) = data_dir t"
  "model_type (mutate_model f t) = model_type t"
  "model_path (mutate_model f t) = model_path t"
  "transfer_learning_mode (mutate_model f t) = transfer_learning_mode t"
  "model (mutate_model f t) = map_option f (model t)"
  by (simp_all add: mutate_model_def)

lemma new_head_Inr:
  "new_head feat cs = Inr l \<Longrightarrow> \<exists>i names. feat = Inr i \<and> cs = Some names \<and> l = nn_Linear i (length names)"
  by (cases feat; cases cs) (simp_all add: new_head_def)

lemma layer_in_features_Inr: "layer_in_features l = Inr i \<Longrightarrow> \<exists>k wg bg. l = Linear i k wg bg"
  by (cases l) simp_all

lemma replace_head_mobilenet:
  assumes "replace_head ''mobilenet_v2'' cs m = Inr m'"
  shows "\<exists>ls i k wg bg names. classifier m = Some (Sequential ls) \<and> 1 < length ls
         \<and> ls ! 1 = Linear i k wg bg \<and> cs = Some names
         \<and> m' = m\<lparr>classifier := Some (Sequential (ls[1 := nn_Linear i (length names)]))\<rparr>"
proof -
  from assms obtain ls where c: "classifier m = Some (Sequential ls)" and len: "1 < length ls"
    by (auto simp: replace_head_def split: option.splits module.splits if_splits)
  from assms c len obtain l where nh: "new_head (layer_in_features (ls ! 1)) cs = Inr l"
    and m': "m' = m\<lparr>classifier := Some (Sequential (ls[1 := l]))\<rparr>"
    by (auto simp: replace_head_def split: sum.splits)
  from new_head_Inr[OF nh] layer_in_features_Inr m' c len show ?thesis
    by fastforce
qed

lemma replace_head_densenet:
  assumes "replace_head ''densenet121'' cs m = Inr m'"
  shows "\<exists>i k wg bg names. classifier m = Some (Layer (Linear i k wg bg)) \<and> cs = Some names
         \<and> m' = m\<lparr>classifier := Some (Layer (nn_Linear i (length names)))\<rparr>"
proof -
  from assms obtain l0 where c: "classifier m = Some (Layer l0)"
    by (auto simp: replace_head_def split: option.splits module.splits)
  from assms c obtain l where nh: "new_head (layer_in_features l0) cs = Inr l"
    and m': "m' = m\<lparr>classifier := Some (Layer l)\<rparr>"
    by (auto simp: replace_head_def split: sum.splits)
  from new_head_Inr[OF nh] layer_in_features_Inr m' c show ?thesis
    by fastforce
qed

lemma replace_head_generic:
  assumes "mt \<noteq> ''mobilenet_v2''" "mt \<noteq> ''densenet121''" "replace_head mt cs m = Inr m'"
  shows "\<exists>i k wg bg names. fc m = Some (Layer (Linear i k wg bg)) \<and> cs = Some names
         \<and> m' = m\<lparr>fc := Some (Layer (nn_Linear i (length names)))\<rparr>"
proof -
  from assms obtain l0 where c: "fc m = Some (Layer l0)"
    by (auto simp: replace_head_def split: option.splits module.splits)
  from assms c obtain l where nh: "new_head (layer_in_features l0) cs = Inr l"
    and m': "m' = m\<lparr>fc := Some (Layer l)\<rparr>"
    by (auto simp: replace_head_def split: sum.splits)
  from new_head_Inr[OF nh] layer_in_features_Inr m' c show ?thesis
    by fastforce
qed

lemma replace_head_Inr:
  assumes "replace_head mt cs m = Inr m'"
  shows "\<exists>i k wg bg names. head_layer mt m = Some (Linear i k wg bg) \<and> cs = Some names
         \<and> head_layer mt m' = Some (Linear i (length names) True True) \<and> body m' = body m"
proof -
  consider "mt = ''mobilenet_v2''" | "mt = ''densenet121''"
    | "mt \<noteq> ''mobilenet_v2''" "mt \<noteq> ''densenet121''" by blast
  then show ?thesis
  proof cases
    case 1
    from replace_head_mobilenet[OF assms[unfolded 1]] show ?thesis
      by (auto simp: head_layer_def 1 nn_Linear_def)
  next
    case 2
    from replace_head_densenet[OF assms[unfolded 2]] show ?thesis
      by (auto simp: head_layer_def 2 nn_Linear_def)
  next
    case 3
    from replace_head_generic[OF 3 assms] show ?thesis
      by (auto simp: head_layer_def 3 nn_Linear_def)
  qed
qed

lemma replace_head_Inr_names: "replace_head mt cs m = Inr m' \<Longrightarrow> cs \<noteq> None"
  by (drule replace_head_Inr) auto

lemma finish_training_param_Done:
  assumes "finish_training_param p (t, w) = Done (t', w')"
  shows "w' = w \<and> class_names t' = class_names t \<and> class_names t \<noteq> None
       \<and> dataset_sizes t' = dataset_sizes t \<and> model t' \<noteq> None
       \<and> data_dir t' = data_dir t \<and> dataset_name t' = dataset_name t
       \<and> model_type t' = model_type t \<and> model_path t' = model_path t
       \<and> transfer_learning_mode t' = transfer_learning_mode t"
proof -
  from assms obtain m where m: "model t = Some m"
    by (auto simp: finish_training_param_def split: option.splits)
  from assms m obtain m' where rh: "replace_head (model_type t) (class_names t) m = Inr m'"
    by (auto simp: finish_training_param_def split: sum.splits)
  from assms m rh have "w' = w" and
    t': "t' = (mutate_model (\<lambda>_. m') t)
               \<lparr>optimizer := Some \<lparr>opt_lr = p_lr p, opt_momentum = 9 / 10,
                                  opt_weight_decay = p_weight_decay p\<rparr>,
                lr_scheduler := (case make_scheduler p of None \<Rightarrow> lr_scheduler t
                                 | Some sch \<Rightarrow> Some sch)\<rparr>"
    by (simp_all add: finish_training_param_def)
  with replace_head_Inr_names[OF rh] m show ?thesis
    by simp
qed

lemma set_training_param_mid:
  assumes "set_training_param (t, w) = Done (t', w')"
  shows "\<exists>p t2. training_params t = Some p \<and> model_type t \<noteq> []
          \<and> (if model_path t \<noteq> []
              then set_transfer_learning_mode (t\<lparr>model := Some (p_model p)\<rparr>, w)
              else Done (t\<lparr>model := Some (p_model p)\<rparr>, w)) = Done (t2, w)
          \<and> (t2 = t\<lparr>model := Some (p_model p)\<rparr>
               \<or> (model_path t \<noteq> [] \<and> t2 = mutate_model freeze_params (t\<lparr>model := Some (p_model p)\<rparr>)))
          \<and> finish_training_param p (t2, w) = Done (t', w')"
proof -
  from assms have mt: "model_type t \<noteq> []"
    by (auto simp: set_training_param_def split: if_splits)
  from assms mt obtain p where p: "training_params t = Some p"
    by (auto simp: set_training_param_def split: option.splits)
  let ?t1 = "t\<lparr>model := Some (p_model p)\<rparr>"
  let ?mid = "if model_path t \<noteq> [] then set_transfer_learning_mode (?t1, w) else Done (?t1, w)"
  from assms mt p have unf:
    "(case ?mid of Failed e s \<Rightarrow> Failed e s | Done s2 \<Rightarrow> finish_training_param p s2) = Done (t', w')"
    by (simp add: set_training_param_def)
  then obtain s2 where mid: "?mid = Done s2" and fin: "finish_training_param p s2 = Done (t', w')"
    by (cases ?mid) simp_all
  obtain t2 w2 where s2: "s2 = (t2, w2)" by (cases s2)
  have t2: "w2 = w \<and> (t2 = ?t1 \<or> (model_path t \<noteq> [] \<and> t2 = mutate_model freeze_params ?t1))"
  proof (cases "model_path t \<noteq> []")
    case True
    with mid s2 have "set_transfer_learning_mode (?t1, w) = Done (t2, w2)" by simp
    from set_transfer_learning_mode_Done[OF this] True show ?thesis by blast
  next
    case False
    with mid s2 show ?thesis by simp
  qed
  with p mt mid fin s2 show ?thesis by blast
qed

lemma set_training_param_Done:
  assumes "set_training_param (t, w) = Done (t', w')"
  shows "w' = w \<and> class_names t' = class_names t \<and> class_names t \<noteq> None
       \<and> dataset_sizes t' = dataset_sizes t \<and> model t' \<noteq> None
       \<and> data_dir t' = data_dir t \<and> dataset_name t' = dataset_name t
       \<and> model_type t' = model_type t \<and> model_path t' = model_path t
       \<and> transfer_learning_mode t' = transfer_learning_mode t"
proof -
  from set_training_param_mid[OF assms] obtain p t2 where
    t2: "t2 = t\<lparr>model := Some (p_model p)\<rparr>
          \<or> (model_path t \<noteq> [] \<and> t2 = mutate_model freeze_params (t\<lparr>model := Some (p_model p)\<rparr>))"
    and fin: "finish_training_param p (t2, w) = Done (t', w')"
    by blast
  from finish_training_param_Done[OF fin] t2 show ?thesis
    by auto
qed

subsection \<open>The example run, evaluated\<close>




subsection \<open>The class-index mapping file\<close>

lemma train_loaded_world:
  assumes "class_names t = Some names" "model t = Some m" "dataset_sizes t = Some sizes"
  shows "snd (final (train_loaded env n md v (t, w)))
         = snd (final (training_loop env t m sizes (output_directory md t) v [0..<nat n]
              (init_loop m, json_dump (mapping_path (output_directory md t) t) (classes_dict_of names)
                 (ensure_directory (output_directory md t) w))))"
  using assms
  by (auto simp: train_loaded_def Let_def split: outcome.splits)




subsection \<open>The loop does not read the class names\<close>

lemma save_name_class_names: "save_name env (t\<lparr>class_names := c\<rparr>) acc e = save_name env t acc e"
  by (simp add: save_name_def)

lemma save_checkpoint_class_names:
  "save_checkpoint env (t\<lparr>class_names := c\<rparr>) m d e a s = save_checkpoint env t m d e a s"
  by (simp add: save_checkpoint_def save_name_class_names)

lemma consider_checkpoint_class_names:
  "consider_checkpoint env (t\<lparr>class_names := c\<rparr>) m d e a s = consider_checkpoint env t m d e a s"
  by (cases s) (simp add: consider_checkpoint_def save_checkpoint_class_names)

lemma run_phase_class_names:
  "run_phase env (t\<lparr>class_names := c\<rparr>) m sizes d v e ph s = run_phase env t m sizes d v e ph s"
  by (cases s)
     (simp add: run_phase_def consider_checkpoint_class_names Let_def split: sum.splits)

lemma run_phases_class_names:
  "run_phases env (t\<lparr>class_names := c\<rparr>) m sizes d v e phs s = run_phases env t m sizes d v e phs s"
  by (induction phs arbitrary: s)
     (simp_all add: run_phase_class_names cong: outcome.case_cong)

lemma training_loop_class_names:
  "training_loop env (t\<lparr>class_names := c\<rparr>) m sizes d v es s = training_loop env t m sizes d v es s"
  by (induction es arbitrary: s)
     (simp_all add: run_phase_class_names cong: outcome.case_cong)

lemma output_directory_class_names:
  "output_directory md (t\<lparr>class_names := c\<rparr>) = output_directory md t"
  by (cases md) simp_all

lemma mapping_path_class_names: "mapping_path d (t\<lparr>class_names := c\<rparr>) = mapping_path d t"
  by (simp add: mapping_path_def)

lemma train_loaded_unset:
  "model t = None \<or> dataset_sizes t = None \<Longrightarrow> class_names t \<noteq> None
     \<Longrightarrow> snd (final (train_loaded env n md v (t, w))) = w"
  by (auto simp: train_loaded_def split: option.splits)

text \<open>
  Claim C8. The class-index dictionary depends only on the multiset of class names, not
  on the order in which the class folders were found; so two runs of the part of
  \<^verbatim>\<open>trainModel\<close> that follows the set-up, on trainers that differ only in the order of
  their class names, leave the same files, directories, log and console.
\<close>

theorem class_mapping_order_invariant:
  assumes "mset xs = mset ys"
  shows "classes_dict_of xs = classes_dict_of ys
       \<and> snd (final (train_loaded env n md v (t\<lparr>class_names := Some xs\<rparr>, w)))
         = snd (final (train_loaded env n md v (t\<lparr>class_names := Some ys\<rparr>, w)))"
proof
  show eq: "classes_dict_of xs = classes_dict_of ys"
    using assms by (rule classes_dict_of_perm)
  show "snd (final (train_loaded env n md v (t\<lparr>class_names := Some xs\<rparr>, w)))
         = snd (final (train_loaded env n md v (t\<lparr>class_names := Some ys\<rparr>, w)))"
  proof (cases "model t = None \<or> dataset_sizes t = None")
    case True
    then show ?thesis
      by (simp add: train_loaded_unset)
  next
    case False
    then obtain m sizes where m: "model t = Some m" and s: "dataset_sizes t = Some sizes"
      by auto
    have "snd (final (train_loaded env n md v (t\<lparr>class_names := Some zs\<rparr>, w)))
         = snd (final (training_loop env t m sizes (output_directory md t) v [0..<nat n]
              (init_loop m, json_dump (mapping_path (output_directory md t) t) (classes_dict_of zs)
                 (ensure_directory (output_directory md t) w))))" for zs
      using train_loaded_world[of "t\<lparr>class_names := Some zs\<rparr>" zs m sizes env n md v w] m s
      by (simp add: training_loop_class_names output_directory_class_names
          mapping_path_class_names)
    then show ?thesis
      by (simp add: eq)
  qed
qed

theorem class_mapping_order_invariant_witness:
  "mset [''dog'', ''cat''] = mset [''cat'', ''dog'']
   \<and> classes_dict_of [''dog'', ''cat''] = classes_dict_of [''cat'', ''dog'']
   \<and> snd (final (train_loaded demo_env 1 None True
                   (demo_ready\<lparr>class_names := Some [''dog'', ''cat'']\<rparr>, demo_world)))
     = snd (final (train_loaded demo_env 1 None True
                   (demo_ready\<lparr>class_names := Some [''cat'', ''dog'']\<rparr>, demo_world)))"
proof -
  have h: "mset [''dog'', ''cat''] = mset [''cat'', ''dog'']"
    by simp
  from class_mapping_order_invariant[OF h, of demo_env 1 None True demo_ready demo_world] h
  show ?thesis by blast
qed

subsection \<open>Epoch metrics\<close>

lemma run_batches_sums:
  "run_batches bs (l, c) = (l + loss_sum bs, c + correct_count bs)"
  by (induction bs arbitrary: l c) (simp_all add: loss_sum_def correct_count_def)

lemma correct_le_examples: "correct_count bs \<le> example_count bs"
  by (induction bs) (simp_all add: correct_count_def example_count_def add_mono)

lemma epoch_metrics_Inr:
  assumes "epoch_metrics bs n = Inr (epoch_loss, epoch_acc)"
  shows "n \<noteq> 0 \<and> epoch_loss = loss_sum bs / real n \<and> epoch_acc = real (correct_count bs) / real n"
  using assms
  by (auto simp: epoch_metrics_def run_batches_sums split: if_splits)

lemma save_checkpoint_console:
  "console (snd (final (save_checkpoint env t m d e a (ls, w)))) = console w"
  by (auto simp: save_checkpoint_def Let_def os_remove_def torch_save_def split: sum.splits)

lemma consider_checkpoint_console:
  "console (snd (final (consider_checkpoint env t m d e a (ls, w)))) = console w"
  by (simp add: consider_checkpoint_def save_checkpoint_console)

lemma run_phase_console:
  "set (console (snd (final (run_phase env t m sizes d v e ph s))))
     \<subseteq> set (console (snd s)) \<union> {r. report_ok env sizes r}"
proof (cases s)
  case (Pair ls w)
  show ?thesis
  proof (cases "epoch_metrics (forward env e ph) (split_size sizes ph)")
    case (Inl err)
    with Pair show ?thesis by (simp add: run_phase_def)
  next
    case (Inr r)
    obtain l a where r: "r = (l, a)" by (cases r)
    with Inr have ok: "report_ok env sizes (e, ph, l, a)" by (simp add: report_ok_def)
    with Pair Inr r show ?thesis
      by (auto simp: run_phase_def Let_def consider_checkpoint_console)
  qed
qed

lemma run_phases_console:
  "set (console (snd (final (run_phases env t m sizes d v e phs s))))
     \<subseteq> set (console (snd s)) \<union> {r. report_ok env sizes r}"
proof (induction phs arbitrary: s)
  case Nil
  show ?case by simp
next
  case (Cons ph phs)
  show ?case
  proof (cases "run_phase env t m sizes d v e ph s")
    case (Done s')
    with run_phase_console[of env t m sizes d v e ph s] Cons[of s'] show ?thesis
      by auto
  next
    case (Failed err s')
    with run_phase_console[of env t m sizes d v e ph s] show ?thesis by simp
  qed
qed

lemma training_loop_console:
  "set (console (snd (final (training_loop env t m sizes d v es s))))
     \<subseteq> set (console (snd s)) \<union> {r. report_ok env sizes r}"
proof (induction es arbitrary: s)
  case Nil
  show ?case by simp
next
  case (Cons e es)
  show ?case
  proof (cases "run_phases env t m sizes d v e [Train, Test] s")
    case (Done s')
    with run_phases_console[of env t m sizes d v e "[Train, Test]" s] Cons[of s'] show ?thesis
      by auto
  next
    case (Failed err s')
    with run_phases_console[of env t m sizes d v e "[Train, Test]" s] show ?thesis by simp
  qed
qed

text \<open>
  Claim C4. Every line the training loop prints for an epoch and a phase carries the
  running loss sum of that phase divided by the example count of the split, and the
  running count of correct predictions divided by the same example count (never the
  number of batches). When the loader hands out every example of a split exactly once
  per pass, so that the batch sizes add up to the example count, the accuracy lies
  between 0 and 1. Floats are exact reals here.
\<close>

theorem epoch_metrics_over_example_count:
  assumes "\<forall>epoch ph. example_count (forward env epoch ph) = split_size sizes ph"
    and "(epoch, ph, epoch_loss, epoch_acc)
           \<in> set (console (snd (final (training_loop env t m sizes d v epochs (ls, w)))))"
    and "(epoch, ph, epoch_loss, epoch_acc) \<notin> set (console w)"
  shows "epoch_loss = loss_sum (forward env epoch ph) / real (split_size sizes ph)
       \<and> epoch_acc = real (correct_count (forward env epoch ph)) / real (split_size sizes ph)
       \<and> 0 \<le> epoch_acc \<and> epoch_acc \<le> 1"
proof -
  from training_loop_console[of env t m sizes d v epochs "(ls, w)"] assms(2,3)
  have "report_ok env sizes (epoch, ph, epoch_loss, epoch_acc)"
    by auto
  then have em: "epoch_metrics (forward env epoch ph) (split_size sizes ph) = Inr (epoch_loss, epoch_acc)"
    by (simp add: report_ok_def)
  from epoch_metrics_Inr[OF em] have n: "split_size sizes ph \<noteq> 0"
    and l: "epoch_loss = loss_sum (forward env epoch ph) / real (split_size sizes ph)"
    and a: "epoch_acc = real (correct_count (forward env epoch ph)) / real (split_size sizes ph)"
    by simp_all
  from assms(1) correct_le_examples[of "forward env epoch ph"]
  have "correct_count (forward env epoch ph) \<le> split_size sizes ph"
    by simp
  with n a have "0 \<le> epoch_acc \<and> epoch_acc \<le> 1"
    by simp
  with l a show ?thesis by simp
qed

lemma demo_contract:
  "\<forall>epoch ph. example_count (forward demo_env epoch ph) = split_size (4, 2) ph"
proof (intro allI)
  fix epoch ph
  show "example_count (forward demo_env epoch ph) = split_size (4, 2) ph"
    by (cases ph) (simp_all add: example_count_def demo_env_def demo_forward_def)
qed

lemma demo_console:
  "console (snd (final (training_loop demo_env demo_ready demo_backbone (4, 2)
       ''/data/pets/models'' True [0] (init_loop demo_backbone, demo_world))))
   = [(0, Train, 3 / 4, 3 / 4), (0, Test, 1 / 2, 1 / 2)]"
  by (simp add: run_phase_def epoch_metrics_def consider_checkpoint_def save_checkpoint_def
      init_loop_def torch_save_def Let_def demo_env_def demo_forward_def demo_world_def)

theorem epoch_metrics_over_example_count_witness:
  "(\<forall>epoch ph. example_count (forward demo_env epoch ph) = split_size (4, 2) ph)
   \<and> (0, Test, 1 / 2, 1 / 2)
        \<in> set (console (snd (final (training_loop demo_env demo_ready demo_backbone (4, 2)
             ''/data/pets/models'' True [0] (init_loop demo_backbone, demo_world)))))
   \<and> (0, Test, 1 / 2, 1 / 2) \<notin> set (console demo_world)
   \<and> (1 / 2 :: real) = loss_sum (forward demo_env 0 Test) / real (split_size (4, 2) Test)
   \<and> (1 / 2 :: real) = real (correct_count (forward demo_env 0 Test)) / real (split_size (4, 2) Test)
   \<and> (0 :: real) \<le> 1 / 2 \<and> (1 / 2 :: real) \<le> 1"
proof -
  have h2: "(0, Test, 1 / 2, 1 / 2)
        \<in> set (console (snd (final (training_loop demo_env demo_ready demo_backbone (4, 2)
             ''/data/pets/models'' True [0] (init_loop demo_backbone, demo_world)))))"
    unfolding demo_console by simp
  have h3: "(0, Test, 1 / 2, 1 / 2) \<notin> set (console demo_world)"
    by (simp add: demo_world_def)
  from epoch_metrics_over_example_count[OF demo_contract h2 h3] demo_contract h2 h3
  show ?thesis by blast
qed

subsection \<open>Replacing the classification head\<close>

lemma replace_head_total:
  assumes "head_layer mt m = Some (Linear i k wg bg)"
  shows "\<exists>m'. replace_head mt (Some names) m = Inr m'"
proof -
  consider "mt = ''mobilenet_v2''" | "mt = ''densenet121''"
    | "mt \<noteq> ''mobilenet_v2''" "mt \<noteq> ''densenet121''" by blast
  then show ?thesis
  proof cases
    case 1
    with assms show ?thesis
      by (auto simp: head_layer_def replace_head_def new_head_def
          split: option.splits module.splits if_splits)
  next
    case 2
    with assms show ?thesis
      by (auto simp: head_layer_def replace_head_def new_head_def
          split: option.splits module.splits)
  next
    case 3
    with assms show ?thesis
      by (auto simp: head_layer_def replace_head_def new_head_def
          split: option.splits module.splits)
  qed
qed

text \<open>
  Claim C5. For each of the four architectures and any list of \<open>N\<close> class names, when
  the backbone has the head of its family with input width \<open>i\<close>, replacing the head
  succeeds and puts a fresh linear layer with input width \<open>i\<close> and output width \<open>N\<close> in
  the place of the old one: the second stage of the two-stage \<^verbatim>\<open>classifier\<close> for
  mobilenet_v2, the \<^verbatim>\<open>classifier\<close> attribute for densenet121, the \<^verbatim>\<open>fc\<close> attribute
  otherwise. Nothing else of the network changes.
\<close>

theorem head_replaced_with_class_count:
  assumes "mt \<in> set supported_architectures"
    and "head_layer mt m = Some (Linear i k wg bg)"
  shows "\<exists>m'. replace_head mt (Some names) m = Inr m'
           \<and> head_layer mt m' = Some (Linear i (length names) True True)
           \<and> body m' = body m
           \<and> (mt = ''mobilenet_v2'' \<longrightarrow>
                 (\<exists>ls. classifier m = Some (Sequential ls)
                     \<and> classifier m' = Some (Sequential (ls[1 := nn_Linear i (length names)])))
                 \<and> fc m' = fc m)
           \<and> (mt = ''densenet121'' \<longrightarrow>
                 classifier m' = Some (Layer (nn_Linear i (length names))) \<and> fc m' = fc m)
           \<and> (mt \<noteq> ''mobilenet_v2'' \<and> mt \<noteq> ''densenet121'' \<longrightarrow>
                 fc m' = Some (Layer (nn_Linear i (length names)))
                 \<and> classifier m' = classifier m)"
proof -
  from replace_head_total[OF assms(2)] obtain m' where
    rh: "replace_head mt (Some names) m = Inr m'" by blast
  from replace_head_Inr[OF rh] assms(2) have
    hd: "head_layer mt m' = Some (Linear i (length names) True True)" and b: "body m' = body m"
    by auto
  have mob: "mt = ''mobilenet_v2'' \<longrightarrow>
                 (\<exists>ls. classifier m = Some (Sequential ls)
                     \<and> classifier m' = Some (Sequential (ls[1 := nn_Linear i (length names)])))
                 \<and> fc m' = fc m"
  proof
    assume mt: "mt = ''mobilenet_v2''"
    from replace_head_mobilenet[OF rh[unfolded mt]] assms(2) mt show
      "(\<exists>ls. classifier m = Some (Sequential ls)
            \<and> classifier m' = Some (Sequential (ls[1 := nn_Linear i (length names)])))
       \<and> fc m' = fc m"
      by (auto simp: head_layer_def)
  qed
  have den: "mt = ''densenet121'' \<longrightarrow>
                 classifier m' = Some (Layer (nn_Linear i (length names))) \<and> fc m' = fc m"
  proof
    assume mt: "mt = ''densenet121''"
    from replace_head_densenet[OF rh[unfolded mt]] assms(2) mt show
      "classifier m' = Some (Layer (nn_Linear i (length names))) \<and> fc m' = fc m"
      by (auto simp: head_layer_def)
  qed
  have gen: "mt \<noteq> ''mobilenet_v2'' \<and> mt \<noteq> ''densenet121'' \<longrightarrow>
                 fc m' = Some (Layer (nn_Linear i (length names)))
                 \<and> classifier m' = classifier m"
  proof
    assume mt: "mt \<noteq> ''mobilenet_v2'' \<and> mt \<noteq> ''densenet121''"
    then have a: "mt \<noteq> ''mobilenet_v2''" and b: "mt \<noteq> ''densenet121''" by simp_all
    from replace_head_generic[OF a b rh] assms(2) a b show
      "fc m' = Some (Layer (nn_Linear i (length names))) \<and> classifier m' = classifier m"
      by (auto simp: head_layer_def)
  qed
  from rh hd b mob den gen show ?thesis by blast
qed

theorem head_replaced_with_class_count_witness:
  "''mobilenet_v2'' \<in> set supported_architectures
   \<and> head_layer ''mobilenet_v2'' demo_mobilenet = Some (Linear 1280 1000 True True)
   \<and> replace_head ''mobilenet_v2'' (Some [''cat'', ''dog'', ''fox'']) demo_mobilenet
       = Inr (demo_mobilenet\<lparr>classifier := Some (Sequential [Dropout, Linear 1280 3 True True])\<rparr>)
   \<and> head_layer ''mobilenet_v2''
        (demo_mobilenet\<lparr>classifier := Some (Sequential [Dropout, Linear 1280 3 True True])\<rparr>)
       = Some (Linear 1280 3 True True)"
proof -
  have h1: "''mobilenet_v2'' \<in> set supported_architectures"
    by (simp add: supported_architectures_def)
  have h2: "head_layer ''mobilenet_v2'' demo_mobilenet = Some (Linear 1280 1000 True True)"
    by (simp add: head_layer_def demo_mobilenet_def)
  from head_replaced_with_class_count[OF h1 h2, of "[''cat'', ''dog'', ''fox'']"]
  obtain m' where rh: "replace_head ''mobilenet_v2'' (Some [''cat'', ''dog'', ''fox'']) demo_mobilenet = Inr m'"
    and hd: "head_layer ''mobilenet_v2'' m' = Some (Linear 1280 (length [''cat'', ''dog'', ''fox'']) True True)"
    and cl: "\<exists>ls. classifier demo_mobilenet = Some (Sequential ls)
                \<and> classifier m' = Some (Sequential (ls[1 := nn_Linear 1280 (length [''cat'', ''dog'', ''fox''])]))"
    by blast
  have "replace_head ''mobilenet_v2'' (Some [''cat'', ''dog'', ''fox'']) demo_mobilenet
       = Inr (demo_mobilenet\<lparr>classifier := Some (Sequential [Dropout, Linear 1280 3 True True])\<rparr>)"
    by (simp add: replace_head_def new_head_def nn_Linear_def demo_mobilenet_def)
  with rh hd h1 h2 show ?thesis by simp
qed

subsection \<open>Freezing and the transfer-learning path\<close>

lemma Done_final: "raised out = None \<Longrightarrow> out = Done (fst (final out), snd (final out))"
  by (cases out) simp_all

lemma set_transfer_learning_mode_result:
  assumes "set_transfer_learning_mode (t, w) = Done (t', w')"
  shows "t' = (if transfer_learning_mode t = ''freeze_all'' then mutate_model freeze_params t else t)"
  using assms
  by (auto simp: set_transfer_learning_mode_def split: if_splits sum.splits option.splits)

lemma finish_training_param_model:
  assumes "finish_training_param p (t, w) = Done (t', w')"
  shows "\<exists>m m'. model t = Some m \<and> replace_head (model_type t) (class_names t) m = Inr m'
           \<and> model t' = Some m'"
proof -
  from assms obtain m where m: "model t = Some m"
    by (auto simp: finish_training_param_def split: option.splits)
  from assms m obtain m' where rh: "replace_head (model_type t) (class_names t) m = Inr m'"
    by (auto simp: finish_training_param_def split: sum.splits)
  from assms m rh have "model t' = Some m'"
    by (auto simp: finish_training_param_def)
  with m rh show ?thesis by blast
qed

lemma set_training_param_model:
  assumes "set_training_param (t, w) = Done (t', w')"
  shows "\<exists>p m'. training_params t = Some p \<and> model t' = Some m'
           \<and> replace_head (model_type t) (class_names t)
                (if model_path t \<noteq> [] \<and> transfer_learning_mode t = ''freeze_all''
                 then freeze_params (p_model p) else p_model p) = Inr m'"
proof -
  from set_training_param_mid[OF assms] obtain p t2 where
    p: "training_params t = Some p"
    and mid: "(if model_path t \<noteq> []
              then set_transfer_learning_mode (t\<lparr>model := Some (p_model p)\<rparr>, w)
              else Done (t\<lparr>model := Some (p_model p)\<rparr>, w)) = Done (t2, w)"
    and fin: "finish_training_param p (t2, w) = Done (t', w')"
    by blast
  let ?t1 = "t\<lparr>model := Some (p_model p)\<rparr>"
  have t2: "t2 = (if model_path t \<noteq> [] \<and> transfer_learning_mode t = ''freeze_all''
                  then mutate_model freeze_params ?t1 else ?t1)"
  proof (cases "model_path t \<noteq> []")
    case True
    with mid have "set_transfer_learning_mode (?t1, w) = Done (t2, w)" by simp
    from set_transfer_learning_mode_result[OF this] True show ?thesis by simp
  next
    case False
    with mid show ?thesis by simp
  qed
  from finish_training_param_model[OF fin] obtain m m' where
    m: "model t2 = Some m" and rh: "replace_head (model_type t2) (class_names t2) m = Inr m'"
    and m': "model t' = Some m'" by blast
  from t2 m have "m = (if model_path t \<noteq> [] \<and> transfer_learning_mode t = ''freeze_all''
                 then freeze_params (p_model p) else p_model p)"
    by (auto split: if_splits)
  moreover from t2 have "model_type t2 = model_type t" "class_names t2 = class_names t"
    by (simp_all split: if_splits)
  ultimately show ?thesis using p rh m' by auto
qed

lemma freeze_params_body:
  "(k, e) \<in> set (body (freeze_params m)) \<Longrightarrow> is_param e \<Longrightarrow> \<not> requires_grad e"
  by (auto simp: freeze_params_def freeze_entry_def split: if_splits)

lemma train_loaded_trainer: "train_loaded env n md v (t, w) = Done (t', w') \<Longrightarrow> t' = t"
  by (auto simp: train_loaded_def Let_def split: option.splits outcome.splits)

lemma trainModel_Done:
  assumes "trainModel env n bs md tf v (t, w) = Done (t', w')"
  shows "\<exists>t1. load_data env bs (t, w) = Done (t1, w)
            \<and> set_training_param (set_model_path tf t1, w) = Done (t', w)"
proof -
  from assms obtain t1 w1 where ld: "load_data env bs (t, w) = Done (t1, w1)"
    by (cases "load_data env bs (t, w)") (auto simp: trainModel_def)
  from load_data_Done[OF ld] have w1: "w1 = w" by simp
  from assms ld obtain t3 w3 where
    sp: "set_training_param (set_model_path tf t1, w1) = Done (t3, w3)"
    by (cases "set_training_param (set_model_path tf t1, w1)") (auto simp: trainModel_def)
  from set_training_param_Done[OF sp] have w3: "w3 = w1" by simp
  from assms ld sp have "train_loaded env n md v (t3, w3) = Done (t', w')"
    by (simp add: trainModel_def)
  from train_loaded_trainer[OF this] have "t' = t3" .
  with ld sp w1 w3 show ?thesis by simp
qed

lemma set_training_param_flags:
  assumes "set_training_param (t, w) = Done (t', w')"
  shows "\<exists>p names m' i.
           training_params t = Some p \<and> class_names t = Some names \<and> model t' = Some m'
         \<and> head_layer (model_type t) m' = Some (Linear i (length names) True True)
         \<and> (model_path t \<noteq> [] \<and> transfer_learning_mode t = ''freeze_all'' \<longrightarrow>
              (\<forall>(k, e) \<in> set (body m'). is_param e \<longrightarrow> \<not> requires_grad e))
         \<and> (\<not> (model_path t \<noteq> [] \<and> transfer_learning_mode t = ''freeze_all'') \<longrightarrow>
              body m' = body (p_model p))"
proof -
  from set_training_param_model[OF assms] obtain p m' where
    p: "training_params t = Some p" and m': "model t' = Some m'"
    and rh: "replace_head (model_type t) (class_names t)
                (if model_path t \<noteq> [] \<and> transfer_learning_mode t = ''freeze_all''
                 then freeze_params (p_model p) else p_model p) = Inr m'"
    by blast
  from replace_head_Inr[OF rh] obtain i names where
    n: "class_names t = Some names"
    and hd: "head_layer (model_type t) m' = Some (Linear i (length names) True True)"
    and b: "body m' = body (if model_path t \<noteq> [] \<and> transfer_learning_mode t = ''freeze_all''
                 then freeze_params (p_model p) else p_model p)"
    by blast
  have fr: "model_path t \<noteq> [] \<and> transfer_learning_mode t = ''freeze_all'' \<longrightarrow>
              (\<forall>(k, e) \<in> set (body m'). is_param e \<longrightarrow> \<not> requires_grad e)"
    using b by (auto dest: freeze_params_body)
  have un: "\<not> (model_path t \<noteq> [] \<and> transfer_learning_mode t = ''freeze_all'') \<longrightarrow>
              body m' = body (p_model p)"
    using b by auto
  from p n m' hd fr un show ?thesis by blast
qed






text \<open>
  Claim C10, as the code has it. The path is stored in the trainer and outlives the call
  that supplied it. When \<^verbatim>\<open>trainModel\<close> is called without a transfer-learning path on a
  trainer that holds none either, and returns, the freezing branch was not run whatever
  the freeze mode is: the entries outside the head are exactly those of the network the
  parameter table supplied, and the head is a fresh trainable layer.
\<close>

theorem no_freeze_without_stored_path:
  assumes "\<not> truthy tf" and "model_path t = []"
    and "trainModel env n bs md tf v (t, w) = Done (t', w')"
  shows "\<exists>p names m' i.
           training_params t = Some p \<and> class_names t' = Some names \<and> model t' = Some m'
         \<and> body m' = body (p_model p)
         \<and> head_layer (model_type t) m' = Some (Linear i (length names) True True)"
proof -
  from trainModel_Done[OF assms(3)] obtain t1 where
    ld: "load_data env bs (t, w) = Done (t1, w)"
    and sp: "set_training_param (set_model_path tf t1, w) = Done (t', w)"
    by blast
  from assms(1) have same: "set_model_path tf t1 = t1"
    by (cases tf) simp_all
  from load_data_Done[OF ld] assms(2) have t1: "model_path t1 = []"
    "training_params t1 = training_params t" "model_type t1 = model_type t"
    by simp_all
  from set_training_param_flags[OF sp[unfolded same]] t1
    set_training_param_Done[OF sp[unfolded same]]
  show ?thesis by auto
qed

lemma demo_plain_raised:
  "raised (trainModel demo_env 0 2 None None False (freezeAllLayers demo_trainer, demo_world)) = None"
  by code_simp

theorem no_freeze_without_stored_path_witness:
  "\<not> truthy None \<and> model_path (freezeAllLayers demo_trainer) = []
   \<and> trainModel demo_env 0 2 None None False (freezeAllLayers demo_trainer, demo_world)
     = Done (fst (final (trainModel demo_env 0 2 None None False
                           (freezeAllLayers demo_trainer, demo_world))),
             snd (final (trainModel demo_env 0 2 None None False
                           (freezeAllLayers demo_trainer, demo_world))))
   \<and> (\<exists>p names m' i.
         training_params (freezeAllLayers demo_trainer) = Some p
       \<and> class_names (fst (final (trainModel demo_env 0 2 None None False
                           (freezeAllLayers demo_trainer, demo_world)))) = Some names
       \<and> model (fst (final (trainModel demo_env 0 2 None None False
                           (freezeAllLayers demo_trainer, demo_world)))) = Some m'
       \<and> body m' = body (p_model p)
       \<and> head_layer (model_type (freezeAllLayers demo_trainer)) m'
           = Some (Linear i (length names) True True))"
proof -
  have h1: "\<not> truthy None" by simp
  have h2: "model_path (freezeAllLayers demo_trainer) = []"
    by (simp add: freezeAllLayers_def demo_trainer_def setModelAsResNet50_def init_trainer_def)
  from no_freeze_without_stored_path[OF h1 h2 Done_final[OF demo_plain_raised]]
    h1 h2 Done_final[OF demo_plain_raised]
  show ?thesis by blast
qed

text \<open>
  The claim as worded fails on a trainer that is used twice. The first call supplies
  the path \<^verbatim>\<open>/ckpt.pt\<close> in the default mode and leaves the parameter outside the head
  trainable; then \<^verbatim>\<open>freezeAllLayers\<close> is called; the second call supplies no path, and
  yet it freezes that parameter, because the stored path is still there.
\<close>

theorem freeze_after_earlier_path_counterexample:
  "raised demo_first_run = None
   \<and> map_option param_flags (model (fst (final demo_first_run))) = Some [(''conv1.weight'', True)]
   \<and> model_path (fst (final demo_first_run)) = ''/ckpt.pt''
   \<and> \<not> truthy None
   \<and> raised (trainModel demo_env 0 2 None None False
               (freezeAllLayers (fst (final demo_first_run)), snd (final demo_first_run))) = None
   \<and> map_option param_flags
        (model (fst (final (trainModel demo_env 0 2 None None False
               (freezeAllLayers (fst (final demo_first_run)), snd (final demo_first_run))))))
     = Some [(''conv1.weight'', False)]"
  by code_simp

subsection \<open>Keys produced by the remapping\<close>

lemma first_alt_Some: "first_alt as s = Some (a, r) \<Longrightarrow> a \<in> set as"
  by (induction as) (auto split: option.splits)

lemma pattern_match_Some:
  assumes "pattern_match key = Some (g1, g2)"
  shows "\<exists>layer stage d suffix.
           g1 = layer @ ''.'' @ stage \<and> stage \<in> set [''norm'', ''relu'', ''conv'']
         \<and> g2 = d # ''.'' @ suffix \<and> (d = CHR ''1'' \<or> d = CHR ''2'')
         \<and> suffix \<in> set [''weight'', ''bias'', ''running_mean'', ''running_var'']"
proof -
  let ?sufs = "map rev [''weight'', ''bias'', ''running_mean'', ''running_var'']"
  let ?stages = "map rev [''norm'', ''relu'', ''conv'']"
  from assms obtain suffix r2 where
    fa: "first_alt ?sufs (drop_final_newline (rev key)) = Some (suffix, r2)"
    by (auto simp: pattern_match_def split: option.splits)
  from assms fa obtain d r3 where r2: "r2 = CHR ''.'' # d # CHR ''.'' # r3"
    and d: "d = CHR ''1'' \<or> d = CHR ''2''"
    by (auto simp: pattern_match_def split: list.splits if_splits)
  from assms fa r2 d obtain stage r4 where fs: "first_alt ?stages r3 = Some (stage, r4)"
    by (auto simp: pattern_match_def split: option.splits)
  from assms fa r2 d fs obtain r5 where r4: "r4 = CHR ''.'' # r5"
    by (auto simp: pattern_match_def split: list.splits if_splits)
  from assms fa r2 d fs r4 obtain layer where ml: "match_layer r5 = Some layer"
    by (auto simp: pattern_match_def split: option.splits)
  from assms fa r2 d fs r4 ml have g: "g1 = layer @ ''.'' @ rev stage" "g2 = d # ''.'' @ rev suffix"
    by (auto simp: pattern_match_def)
  from first_alt_Some[OF fa] have "rev suffix \<in> set [''weight'', ''bias'', ''running_mean'', ''running_var'']"
    by auto
  moreover from first_alt_Some[OF fs] have "rev stage \<in> set [''norm'', ''relu'', ''conv'']"
    by auto
  ultimately show ?thesis using g d by blast
qed

lemma rewritten_shape_no_match:
  assumes "stage \<in> set [''norm'', ''relu'', ''conv'']"
    and "suffix \<in> set [''weight'', ''bias'', ''running_mean'', ''running_var'']"
  shows "pattern_match ((layer @ ''.'' @ stage) @ (d # ''.'' @ suffix)) = None"
  using assms
  by (auto simp: pattern_match_def drop_final_newline_def newline_def)

lemma rewritten_key_no_match:
  "pattern_match key = Some (g1, g2) \<Longrightarrow> pattern_match (g1 @ g2) = None"
  by (drule pattern_match_Some) (auto simp only: rewritten_shape_no_match)

lemma keys_update: "fst ` set (AList.update k v al) = insert k (fst ` set al)"
  by (induction al) auto

lemma keys_delete: "fst ` set (AList.delete k al) = fst ` set al - {k}"
  by (induction al) auto

lemma map_of_None_iff: "map_of al k = None \<longleftrightarrow> k \<notin> fst ` set al"
  by (simp add: map_of_eq_None_iff)

lemma remap_key_no_match: "pattern_match key = None \<Longrightarrow> remap_key sd key = Inr sd"
  by (simp add: remap_key_def)

lemma remap_key_keys:
  assumes "remap_key sd key = Inr sd'" and "k \<in> fst ` set sd'" and "pattern_match k \<noteq> None"
  shows "k \<in> fst ` set sd \<and> k \<noteq> key"
proof (cases "pattern_match key")
  case None
  with assms show ?thesis by (auto simp: remap_key_def)
next
  case (Some g)
  obtain g1 g2 where g: "g = (g1, g2)" by (cases g)
  from assms(1) Some g obtain v where
    sd': "sd' = AList.delete key (AList.update (g1 @ g2) v sd)"
    by (auto simp: remap_key_def split: option.splits)
  from Some g have "pattern_match (g1 @ g2) = None"
    by (simp add: rewritten_key_no_match)
  with assms(3) have "k \<noteq> g1 @ g2" by auto
  with assms(2) sd' show ?thesis
    by (auto simp: keys_delete keys_update)
qed

lemma remap_keys_matching:
  assumes "remap_keys ks sd = Inr sd'" and "k \<in> fst ` set sd'" and "pattern_match k \<noteq> None"
  shows "k \<in> fst ` set sd \<and> k \<notin> set ks"
  using assms
proof (induction ks arbitrary: sd)
  case Nil
  then show ?case by simp
next
  case (Cons key ks)
  from Cons.prems(1) obtain sd1 where s1: "remap_key sd key = Inr sd1"
    and rest: "remap_keys ks sd1 = Inr sd'"
    by (auto split: sum.splits)
  from Cons.IH[OF rest Cons.prems(2,3)] have k1: "k \<in> fst ` set sd1" and k2: "k \<notin> set ks"
    by simp_all
  from remap_key_keys[OF s1 k1 Cons.prems(3)] k2 show ?case by simp
qed

lemma remap_keys_idle:
  assumes "\<forall>k \<in> set ks. pattern_match k = None"
  shows "remap_keys ks sd = Inr sd"
  using assms by (induction ks) (simp_all add: remap_key_no_match)

lemma remap_keys_total:
  assumes "distinct ks" and "set ks \<subseteq> fst ` set sd"
  shows "\<exists>sd'. remap_keys ks sd = Inr sd'"
  using assms
proof (induction ks arbitrary: sd)
  case Nil
  show ?case by simp
next
  case (Cons key ks)
  from Cons.prems have key: "key \<in> fst ` set sd" and nk: "key \<notin> set ks"
    and d: "distinct ks" and sub: "set ks \<subseteq> fst ` set sd"
    by auto
  show ?case
  proof (cases "pattern_match key")
    case None
    with Cons.IH[OF d sub] show ?thesis
      by (simp add: remap_key_no_match)
  next
    case (Some g)
    obtain g1 g2 where g: "g = (g1, g2)" by (cases g)
    from key obtain v where v: "map_of sd key = Some v"
      using map_of_None_iff[of sd key] by (cases "map_of sd key") auto
    let ?sd1 = "AList.delete key (AList.update (g1 @ g2) v sd)"
    from Some g v have s1: "remap_key sd key = Inr ?sd1"
      by (simp add: remap_key_def)
    from sub nk have "set ks \<subseteq> fst ` set ?sd1"
      by (auto simp: keys_delete keys_update)
    from Cons.IH[OF d this] s1 show ?thesis by simp
  qed
qed

text \<open>
  Claim C7. On a state dictionary (its keys are distinct) the remapping of the legacy
  densenet keys returns, no key of its result matches the pattern any more, since the
  key written for a match is not itself a match, and remapping the result again gives
  the result back unchanged.
\<close>

theorem remap_is_fixed_point:
  assumes "distinct (map fst sd)"
  shows "\<exists>sd'. remap_legacy_keys sd = Inr sd'
           \<and> (\<forall>k \<in> fst ` set sd'. pattern_match k = None)
           \<and> remap_legacy_keys sd' = Inr sd'"
proof -
  from remap_keys_total[OF assms, of sd] obtain sd' where r: "remap_keys (map fst sd) sd = Inr sd'"
    by auto
  have none: "\<forall>k \<in> fst ` set sd'. pattern_match k = None"
  proof
    fix k assume k: "k \<in> fst ` set sd'"
    show "pattern_match k = None"
    proof (rule ccontr)
      assume "pattern_match k \<noteq> None"
      from remap_keys_matching[OF r k this] show False by auto
    qed
  qed
  then have "remap_keys (map fst sd') sd' = Inr sd'"
    by (intro remap_keys_idle) auto
  with r none show ?thesis
    by (auto simp: remap_legacy_keys_def)
qed

lemma demo_legacy_remapped:
  "remap_legacy_keys demo_legacy_dict
   = Inr [(''classifier.bias'', 3),
          (''features.denseblock1.denselayer1.norm1.weight'', 1),
          (''features.denseblock1.denselayer1.conv2.weight'', 2)]"
  by code_simp

theorem remap_is_fixed_point_witness:
  "distinct (map fst demo_legacy_dict)
   \<and> remap_legacy_keys demo_legacy_dict
       = Inr [(''classifier.bias'', 3),
              (''features.denseblock1.denselayer1.norm1.weight'', 1),
              (''features.denseblock1.denselayer1.conv2.weight'', 2)]
   \<and> remap_legacy_keys [(''classifier.bias'', 3 :: nat),
              (''features.denseblock1.denselayer1.norm1.weight'', 1),
              (''features.denseblock1.denselayer1.conv2.weight'', 2)]
       = Inr [(''classifier.bias'', 3),
              (''features.denseblock1.denselayer1.norm1.weight'', 1),
              (''features.denseblock1.denselayer1.conv2.weight'', 2)]"
proof -
  have h: "distinct (map fst demo_legacy_dict)"
    by (simp add: demo_legacy_dict_def)
  from remap_is_fixed_point[OF h] demo_legacy_remapped h show ?thesis
    by auto
qed

subsection \<open>Failures of the dataset binding\<close>

lemma load_data_no_split:
  assumes "data_dir t \<noteq> []"
    and "\<not> os_path_isdir w (path_join (data_dir t) ''train'')
         \<or> \<not> os_path_isdir w (path_join (data_dir t) ''test'')"
  shows "\<exists>e. load_data env bs (t, w) = Failed e (t, w)"
proof (cases "ImageFolder env w (path_join (data_dir t) ''train'')")
  case (Inl e)
  with assms(1) show ?thesis by (simp add: load_data_def)
next
  case (Inr train)
  then have "os_path_isdir w (path_join (data_dir t) ''train'')"
    by (auto simp: ImageFolder_def split: if_splits)
  with assms(2) have "\<not> os_path_isdir w (path_join (data_dir t) ''test'')" by simp
  then have "\<exists>e. ImageFolder env w (path_join (data_dir t) ''test'') = Inl e"
    by (simp add: ImageFolder_def)
  then obtain e where "ImageFolder env w (path_join (data_dir t) ''test'') = Inl e"
    by blast
  with Inr assms(1) show ?thesis by (simp add: load_data_def)
qed

text \<open>
  Claim C9. Setting a data directory that is not a directory raises (\<^verbatim>\<open>ValueError\<close>)
  and leaves the trainer as it was. A run on a trainer whose data directory was never
  set raises (\<^verbatim>\<open>RuntimeError\<close>), and a run whose \<^verbatim>\<open>train\<close> or \<^verbatim>\<open>test\<close> folder is not
  a directory raises as well; in both cases the trainer and the file system are left
  untouched, so the model field has not been assigned and nothing was written. These
  exceptions are what the specification calls \<^verbatim>\<open>DatasetError\<close>.
\<close>

theorem dataset_errors_before_model:
  "(\<not> os_path_isdir w d \<longrightarrow> setDataDirectory d (t, w) = Failed ValueError (t, w))
   \<and> (data_dir t = [] \<longrightarrow> trainModel env n bs md tf v (t, w) = Failed RuntimeError (t, w))
   \<and> (data_dir t \<noteq> []
        \<and> (\<not> os_path_isdir w (path_join (data_dir t) ''train'')
             \<or> \<not> os_path_isdir w (path_join (data_dir t) ''test''))
       \<longrightarrow> (\<exists>e. trainModel env n bs md tf v (t, w) = Failed e (t, w)))"
proof (intro conjI impI)
  assume "\<not> os_path_isdir w d"
  then show "setDataDirectory d (t, w) = Failed ValueError (t, w)"
    by (simp add: setDataDirectory_def)
next
  assume "data_dir t = []"
  then show "trainModel env n bs md tf v (t, w) = Failed RuntimeError (t, w)"
    by (simp add: trainModel_def load_data_def)
next
  assume a: "data_dir t \<noteq> []
        \<and> (\<not> os_path_isdir w (path_join (data_dir t) ''train'')
             \<or> \<not> os_path_isdir w (path_join (data_dir t) ''test''))"
  then obtain e where "load_data env bs (t, w) = Failed e (t, w)"
    using load_data_no_split[of t w env bs] by blast
  then show "\<exists>e. trainModel env n bs md tf v (t, w) = Failed e (t, w)"
    by (simp add: trainModel_def)
qed

theorem dataset_errors_before_model_witness:
  "\<not> os_path_isdir demo_world ''/data/birds''
   \<and> setDataDirectory ''/data/birds'' (demo_unbound, demo_world)
       = Failed ValueError (demo_unbound, demo_world)
   \<and> data_dir demo_unbound = []
   \<and> trainModel demo_env 1 2 None None True (demo_unbound, demo_world)
       = Failed RuntimeError (demo_unbound, demo_world)
   \<and> data_dir demo_birds \<noteq> []
   \<and> \<not> os_path_isdir demo_world (path_join (data_dir demo_birds) ''train'')
   \<and> model demo_birds = None
   \<and> (\<exists>e. trainModel demo_env 1 2 None None True (demo_birds, demo_world)
            = Failed e (demo_birds, demo_world))"
proof -
  have h1: "\<not> os_path_isdir demo_world ''/data/birds''"
    by (simp add: os_path_isdir_def demo_world_def)
  have h2: "data_dir demo_unbound = []"
    by (simp add: demo_unbound_def setModelAsResNet50_def init_trainer_def)
  have h3: "data_dir demo_birds \<noteq> []"
    by (simp add: demo_birds_def)
  have h4: "\<not> os_path_isdir demo_world (path_join (data_dir demo_birds) ''train'')"
    by (simp add: os_path_isdir_def demo_world_def demo_birds_def path_join_def)
  have h5: "model demo_birds = None"
    by (simp add: demo_birds_def demo_unbound_def setModelAsResNet50_def init_trainer_def)
  from dataset_errors_before_model[of demo_world "''/data/birds''" demo_unbound demo_env 1 2 None None True]
    h1 h2
  have a: "setDataDirectory ''/data/birds'' (demo_unbound, demo_world)
       = Failed ValueError (demo_unbound, demo_world)"
    and b: "trainModel demo_env 1 2 None None True (demo_unbound, demo_world)
       = Failed RuntimeError (demo_unbound, demo_world)"
    by blast+
  from dataset_errors_before_model[of demo_world "''/data/birds''" demo_birds demo_env 1 2 None None True]
    h3 h4
  have c: "\<exists>e. trainModel demo_env 1 2 None None True (demo_birds, demo_world)
            = Failed e (demo_birds, demo_world)"
    by blast
  from h1 h2 h3 h4 h5 a b c show ?thesis by blast
qed

end
